theory Spec2Isabelle
  imports Main "HOL-Library.Word"
begin

section \<open>Pixel buffers\<close>

text \<open>
  A \<^verbatim>\<open>QImage\<close> is modelled by its pixel grid: the list of its scan lines, top to
  bottom, each scan line the list of its pixels from left to right. A pixel is a
  \<^verbatim>\<open>QRgb\<close>, an unsigned 32-bit value. The null image \<^verbatim>\<open>QImage()\<close> is the empty grid.
\<close>

type_synonym QRgb = "32 word"

type_synonym QImage = "QRgb list list"

definition QImage_null :: QImage where
  "QImage_null = []"

definition height :: "QImage \<Rightarrow> nat" where
  "height img = length img"

definition width :: "QImage \<Rightarrow> nat" where
  "width img = (case img of [] \<Rightarrow> 0 | line # _ \<Rightarrow> length line)"

text \<open>\<^verbatim>\<open>QImage::isNull\<close>: an image without pixels.\<close>

definition isNull :: "QImage \<Rightarrow> bool" where
  "isNull img = (width img = 0 \<or> height img = 0)"

text \<open>\<^verbatim>\<open>QImage::pixel(x, y)\<close>: column \<open>x\<close> of scan line \<open>y\<close>.\<close>

definition pixel :: "QImage \<Rightarrow> nat \<Rightarrow> nat \<Rightarrow> QRgb" where
  "pixel img x y = img ! y ! x"

text \<open>The image of \<open>w\<close> columns and \<open>h\<close> scan lines whose pixel at \<open>(x, y)\<close> is \<open>f x y\<close>.\<close>

definition mk_image :: "nat \<Rightarrow> nat \<Rightarrow> (nat \<Rightarrow> nat \<Rightarrow> QRgb) \<Rightarrow> QImage" where
  "mk_image w h f =
     (if w = 0 \<or> h = 0 then QImage_null
      else map (\<lambda>y. map (\<lambda>x. f x y) [0..<w]) [0..<h])"

text \<open>
  A pixel grid is a proper image when all its scan lines have the same length and, if
  there is a scan line at all, it is not empty.
\<close>

definition rectangular :: "QImage \<Rightarrow> bool" where
  "rectangular img =
     (list_all (\<lambda>line. length line = width img) img \<and> (img = [] \<or> 0 < width img))"

text \<open>
  \<^verbatim>\<open>QImage::mirrored(horizontal, vertical)\<close>: the mirror image, pixel by pixel; the
  result has the size of the original.
\<close>

definition mirrored :: "QImage \<Rightarrow> bool \<Rightarrow> bool \<Rightarrow> QImage" where
  "mirrored img horizontal vertical =
     mk_image (width img) (height img)
       (\<lambda>x y. pixel img (if horizontal then width img - 1 - x else x)
                        (if vertical then height img - 1 - y else y))"

text \<open>
  A \<^verbatim>\<open>QTransform\<close> that is only ever rotated is modelled by its angle in degrees.
  \<^verbatim>\<open>QTransform::rotate(a)\<close> adds \<open>a\<close> to the angle; a positive angle turns an image
  clockwise, since the y axis of an image points down.
\<close>

type_synonym QTransform = int

definition QTransform_identity :: QTransform where
  "QTransform_identity = 0"

definition QTransform_rotate :: "QTransform \<Rightarrow> int \<Rightarrow> QTransform" where
  "QTransform_rotate matrix a = matrix + a"

text \<open>
  \<^verbatim>\<open>QImage::transformed(trans)\<close> for a rotation by a multiple of 90 degrees: the
  result is the rotated pixel grid, width and height exchanged for a quarter turn.
  Angles that are no multiple of 90 degrees do not occur in this program and are
  outside this model (the grid is returned as it is).
\<close>

definition transformed :: "QImage \<Rightarrow> QTransform \<Rightarrow> QImage" where
  "transformed img matrix =
     (if matrix mod 360 = 90 then
        mk_image (height img) (width img) (\<lambda>x y. pixel img y (height img - 1 - x))
      else if matrix mod 360 = 270 then
        mk_image (height img) (width img) (\<lambda>x y. pixel img (width img - 1 - y) x)
      else if matrix mod 360 = 180 then
        mk_image (width img) (height img)
          (\<lambda>x y. pixel img (width img - 1 - x) (height img - 1 - y))
      else img)"

section \<open>The orientation transform\<close>

text \<open>
  Modelled from the spec: the enumeration \<^verbatim>\<open>NemoImageMetadata::Orientation\<close> is declared
  in \<^verbatim>\<open>src/3rdparty/nemo-qml-plugin-thumbnailer/src/nemoimagemetadata.h\<close>, which is not
  among the sources. It has eight orientation codes, the identity and the seven other
  orientations of the image metadata; their names are those that \<^verbatim>\<open>rotate\<close> and
  \<^verbatim>\<open>setSource\<close> use. A C++ enumeration can hold a value that is none of its
  enumerators; such a value is \<open>Unrecognized\<close> here, with the value it holds.
\<close>

datatype Orientation =
    TopLeft
  | TopRight
  | BottomRight
  | BottomLeft
  | LeftTop
  | RightTop
  | RightBottom
  | LeftBottom
  | Unrecognized int

text \<open>
  The function \<^verbatim>\<open>rotate\<close> of \<^verbatim>\<open>filteredimage.cpp\<close>, case by case (its local
  \<^verbatim>\<open>trans\<close> is \<open>matrix\<close> here).
\<close>

fun rotate_image :: "QImage \<Rightarrow> Orientation \<Rightarrow> QImage" where
  "rotate_image src TopRight = mirrored src True False"
| "rotate_image src BottomRight = mirrored src True True"
| "rotate_image src BottomLeft = mirrored src False True"
| "rotate_image src LeftTop =
     (let matrix = QTransform_rotate QTransform_identity 90;
          tmp = transformed src matrix
      in mirrored tmp True False)"
| "rotate_image src RightTop =
     (let matrix = QTransform_rotate QTransform_identity 90
      in transformed src matrix)"
| "rotate_image src RightBottom =
     (let matrix = QTransform_rotate QTransform_identity (- 90);
          tmp = transformed src matrix
      in mirrored tmp True False)"
| "rotate_image src LeftBottom =
     (let matrix = QTransform_rotate QTransform_identity (- 90)
      in transformed src matrix)"
| "rotate_image src _ = src"

text \<open>
  The calls on \<^verbatim>\<open>QImage\<close> that \<^verbatim>\<open>rotate\<close> makes for an orientation, in the order
  in which it makes them: the trace of the function body above, branch by branch.
\<close>

datatype qimage_call =
    Mirrored bool bool
  | Transformed QTransform

fun run_call :: "QImage \<Rightarrow> qimage_call \<Rightarrow> QImage" where
  "run_call img (Mirrored horizontal vertical) = mirrored img horizontal vertical"
| "run_call img (Transformed matrix) = transformed img matrix"

definition run_calls :: "qimage_call list \<Rightarrow> QImage \<Rightarrow> QImage" where
  "run_calls calls img = foldl run_call img calls"

fun rotate_calls :: "Orientation \<Rightarrow> qimage_call list" where
  "rotate_calls TopRight = [Mirrored True False]"
| "rotate_calls BottomRight = [Mirrored True True]"
| "rotate_calls BottomLeft = [Mirrored False True]"
| "rotate_calls LeftTop =
     [Transformed (QTransform_rotate QTransform_identity 90), Mirrored True False]"
| "rotate_calls RightTop = [Transformed (QTransform_rotate QTransform_identity 90)]"
| "rotate_calls RightBottom =
     [Transformed (QTransform_rotate QTransform_identity (- 90)), Mirrored True False]"
| "rotate_calls LeftBottom = [Transformed (QTransform_rotate QTransform_identity (- 90))]"
| "rotate_calls _ = []"

text \<open>A flip mirrors horizontally, vertically or both; a quarter turn rotates by 90 or -90 degrees.\<close>

fun is_flip :: "qimage_call \<Rightarrow> bool" where
  "is_flip (Mirrored horizontal vertical) = (horizontal \<or> vertical)"
| "is_flip (Transformed matrix) = False"

fun is_quarter_turn :: "qimage_call \<Rightarrow> bool" where
  "is_quarter_turn (Transformed matrix) = (matrix = 90 \<or> matrix = - 90)"
| "is_quarter_turn (Mirrored horizontal vertical) = False"

definition is_flip_or_quarter_turn :: "qimage_call \<Rightarrow> bool" where
  "is_flip_or_quarter_turn c = (is_flip c \<or> is_quarter_turn c)"

definition composes_rotation_with_flip :: "Orientation \<Rightarrow> bool" where
  "composes_rotation_with_flip ori =
     (list_ex is_quarter_turn (rotate_calls ori) \<and> list_ex is_flip (rotate_calls ori))"

text \<open>The eight orientation cases, in the order of the enumeration.\<close>

definition orientation_cases :: "Orientation list" where
  "orientation_cases =
     [TopLeft, TopRight, BottomRight, BottomLeft, LeftTop, RightTop, RightBottom, LeftBottom]"

text \<open>
  The geometric inverse of a trace: a mirroring undoes itself, a rotation is undone by
  the rotation through the opposite angle, and a sequence is undone in reverse order.
\<close>

fun inverse_call :: "qimage_call \<Rightarrow> qimage_call" where
  "inverse_call (Mirrored horizontal vertical) = Mirrored horizontal vertical"
| "inverse_call (Transformed matrix) = Transformed (- matrix)"

definition inverse_calls :: "qimage_call list \<Rightarrow> qimage_call list" where
  "inverse_calls calls = rev (map inverse_call calls)"

text \<open>
  The orientation whose transform is the geometric inverse: the two quarter turns undo
  each other, every other transform undoes itself.
\<close>

fun inverse_orientation :: "Orientation \<Rightarrow> Orientation" where
  "inverse_orientation RightTop = LeftBottom"
| "inverse_orientation LeftBottom = RightTop"
| "inverse_orientation ori = ori"

section \<open>The item and its collaborators\<close>

text \<open>
  Modelled from the spec: the class \<^verbatim>\<open>AbstractImageFilter\<close> is declared in
  \<^verbatim>\<open>src/filters/abstractimagefilter.h\<close>, which is not among the sources. Its interface
  is \<open>parameterList() -> ordered list of parameters\<close>,
  \<open>applyFilter(image) -> accepted:boolean\<close> with the result delivered later by the
  notification \<^verbatim>\<open>filterApplied\<close>, and \<open>resetParameters()\<close>. A filter object lives
  outside the item; the item holds a pointer to it.
\<close>

type_synonym filter_ptr = nat

record AbstractImageFilter =
  parameterList :: "string list"
  applyFilter_accepts :: "QImage \<Rightarrow> bool"

text \<open>The signals of the item, and the calls it makes on a filter object.\<close>

datatype signal =
    SourceChanged string
  | ImageChanged QImage
  | IsApplyingFilterChanged bool
  | ImageSaved string

datatype filter_call =
    ResetParameters filter_ptr
  | ApplyFilterRequest filter_ptr QImage

text \<open>
  The member variables of \<^verbatim>\<open>FilteredImage\<close> and the implicit size of the item, together
  with what the item has done to the outside so far: the filters whose
  \<^verbatim>\<open>filterApplied\<close> signal is connected to the item's slot, the signals emitted, the
  calls made on filter objects, and the calls of \<^verbatim>\<open>QImage::save\<close> (path and image).
  A null filter pointer is \<open>None\<close>.
\<close>

record FilteredImage =
  m_source :: string
  m_image :: QImage
  m_filteredImage :: QImage
  m_filter :: "filter_ptr option"
  m_isApplyingFilter :: bool
  m_imageChanged :: bool
  implicitWidth :: nat
  implicitHeight :: nat
  connections :: "filter_ptr list"
  emitted :: "signal list"
  filter_calls :: "filter_call list"
  save_calls :: "(string \<times> QImage) list"

text \<open>
  What the item reads from outside during one call: the format and the decoded image
  that a \<^verbatim>\<open>QImageReader\<close> finds for a source (a null image if it cannot decode it), the
  orientation that \<^verbatim>\<open>NemoImageMetadata\<close> finds for a source and a format, the filter
  object behind a pointer, the pictures directory, whether \<^verbatim>\<open>dir.cd("filters")\<close>
  succeeds at once, whether it succeeds after \<^verbatim>\<open>dir.mkdir("filters")\<close>, and the clock.
\<close>

record env =
  imageReader_format :: "string \<Rightarrow> string"
  imageReader_read :: "string \<Rightarrow> QImage"
  metadata_orientation :: "string \<Rightarrow> string \<Rightarrow> Orientation"
  filter_object :: "filter_ptr \<Rightarrow> AbstractImageFilter"
  picturesLocation :: string
  cd_filters :: bool
  cd_filters_after_mkdir :: bool
  currentMSecsSinceEpoch :: int

text \<open>
  The constructor. It sets \<^verbatim>\<open>m_filter\<close> and \<^verbatim>\<open>m_isApplyingFilter\<close> and leaves
  \<^verbatim>\<open>m_imageChanged\<close> as it finds it, hence the parameter.
\<close>

definition FilteredImage_new :: "bool \<Rightarrow> FilteredImage" where
  "FilteredImage_new uninitialised =
     \<lparr> m_source = [], m_image = QImage_null, m_filteredImage = QImage_null,
       m_filter = None, m_isApplyingFilter = False, m_imageChanged = uninitialised,
       implicitWidth = 0, implicitHeight = 0, connections = [], emitted = [],
       filter_calls = [], save_calls = [] \<rparr>"

definition source :: "FilteredImage \<Rightarrow> string" where
  "source s = m_source s"

text \<open>
  The slot \<^verbatim>\<open>update()\<close>, which the constructor connects to \<^verbatim>\<open>imageChanged\<close>, only asks the
  scene graph for a later call of \<^verbatim>\<open>updatePaintNode\<close>; it changes nothing of the item.
\<close>

definition setSource :: "env \<Rightarrow> string \<Rightarrow> FilteredImage \<Rightarrow> FilteredImage" where
  "setSource e src s =
     (if m_source s \<noteq> src then
        let s1 = s\<lparr> m_source := src \<rparr>;
            format = imageReader_format e (m_source s1);
            s2 = s1\<lparr> m_image := imageReader_read e (m_source s1) \<rparr>;
            orientation = metadata_orientation e (m_source s2) format;
            s3 = (if orientation \<noteq> TopLeft
                  then s2\<lparr> m_image := rotate_image (m_image s2) orientation \<rparr>
                  else s2);
            s4 = s3\<lparr> implicitWidth := width (m_image s3) \<rparr>;
            s5 = s4\<lparr> implicitHeight := height (m_image s4) \<rparr>;
            s6 = s5\<lparr> m_imageChanged := True \<rparr>;
            s7 = s6\<lparr> emitted := emitted s6 @ [SourceChanged (m_source s6)] \<rparr>
        in s7\<lparr> emitted := emitted s7 @ [ImageChanged (m_image s7)] \<rparr>
      else s)"

definition isApplyingFilter :: "FilteredImage \<Rightarrow> bool" where
  "isApplyingFilter s = m_isApplyingFilter s"

text \<open>The accessor \<^verbatim>\<open>FilteredImage::image\<close>.\<close>

definition image_accessor :: "FilteredImage \<Rightarrow> QImage" where
  "image_accessor s = (if isNull (m_filteredImage s) then m_image s else m_filteredImage s)"

definition setIsApplyingFilter :: "bool \<Rightarrow> FilteredImage \<Rightarrow> FilteredImage" where
  "setIsApplyingFilter v s =
     (if m_isApplyingFilter s \<noteq> v then
        s\<lparr> m_isApplyingFilter := v, emitted := emitted s @ [IsApplyingFilterChanged v] \<rparr>
      else s)"

definition resetFilter :: "FilteredImage \<Rightarrow> FilteredImage" where
  "resetFilter s =
     (let s1 = (case m_filter s of
                  Some f \<Rightarrow> s\<lparr> filter_calls := filter_calls s @ [ResetParameters f] \<rparr>
                | None \<Rightarrow> s);
          s2 = s1\<lparr> m_filteredImage := m_image s1 \<rparr>;
          s3 = s2\<lparr> m_imageChanged := True \<rparr>;
          s4 = s3\<lparr> emitted := emitted s3 @ [ImageChanged (m_filteredImage s3)] \<rparr>
      in setIsApplyingFilter False s4)"

definition applyFilter :: "env \<Rightarrow> filter_ptr option \<Rightarrow> FilteredImage \<Rightarrow> FilteredImage" where
  "applyFilter e filter_arg s =
     (let s1 = (case m_filter s of
                  Some old \<Rightarrow> s\<lparr> connections := removeAll old (connections s) \<rparr>
                | None \<Rightarrow> s);
          s2 = s1\<lparr> m_filter := filter_arg \<rparr>
      in case m_filter s2 of
           Some f \<Rightarrow>
             (let s3 = s2\<lparr> connections := connections s2 @ [f] \<rparr>
              in if parameterList (filter_object e f) = [] then
                   (let s4 = s3\<lparr> filter_calls :=
                                    filter_calls s3 @ [ApplyFilterRequest f (m_image s3)] \<rparr>
                    in if applyFilter_accepts (filter_object e f) (m_image s3)
                       then setIsApplyingFilter True s4
                       else s4)
                 else resetFilter s3)
         | None \<Rightarrow> resetFilter s2)"

definition reApplyFilter :: "env \<Rightarrow> FilteredImage \<Rightarrow> FilteredImage" where
  "reApplyFilter e s =
     (case m_filter s of
        Some f \<Rightarrow>
          (let s1 = s\<lparr> filter_calls := filter_calls s @ [ApplyFilterRequest f (m_image s)] \<rparr>
           in if applyFilter_accepts (filter_object e f) (m_image s)
              then setIsApplyingFilter True s1
              else s1)
      | None \<Rightarrow> s)"

definition applyCurrentFilter :: "FilteredImage \<Rightarrow> FilteredImage" where
  "applyCurrentFilter s =
     (if \<not> isNull (m_filteredImage s) then
        s\<lparr> m_image := m_filteredImage s, m_filteredImage := QImage_null \<rparr>
      else s)"

text \<open>\<^verbatim>\<open>QString::number\<close> of a 64-bit integer: its decimal numeral, with a minus sign if negative.\<close>

fun number_digits :: "nat \<Rightarrow> string" where
  "number_digits n =
     (if n < 10 then [''0123456789'' ! n]
      else number_digits (n div 10) @ [''0123456789'' ! (n mod 10)])"

declare number_digits.simps [simp del]

definition QString_number :: "int \<Rightarrow> string" where
  "QString_number i =
     (if i < 0 then CHR ''-'' # number_digits (nat (- i)) else number_digits (nat i))"

definition saveImage :: "env \<Rightarrow> FilteredImage \<Rightarrow> FilteredImage" where
  "saveImage e s =
     (let s1 = applyCurrentFilter s;
          dir = picturesLocation e;
          dir1 = (if \<not> cd_filters e then
                    (if cd_filters_after_mkdir e then dir @ ''/filters'' else dir)
                  else dir @ ''/filters'');
          filename = QString_number (currentMSecsSinceEpoch e) @ ''.jpg''
      in s1\<lparr> save_calls := save_calls s1 @ [(dir1 @ ''/'' @ filename, m_image s1)],
              emitted := emitted s1 @ [ImageSaved filename] \<rparr>)"

text \<open>
  The scene-graph node: its texture (the image it was created from, if any), its
  rectangle, and whether it has been marked dirty.
\<close>

record QSGSimpleTextureNode =
  texture :: "QImage option"
  rect :: "nat \<times> nat \<times> nat \<times> nat"
  markedDirty :: bool

definition QSGSimpleTextureNode_new :: QSGSimpleTextureNode where
  "QSGSimpleTextureNode_new = \<lparr> texture = None, rect = (0, 0, 0, 0), markedDirty = False \<rparr>"

definition updatePaintNode ::
  "QSGSimpleTextureNode option \<Rightarrow> FilteredImage \<Rightarrow> QSGSimpleTextureNode option \<times> FilteredImage"
where
  "updatePaintNode oldNode s =
     (let img = (if \<not> isNull (m_filteredImage s) then m_filteredImage s else m_image s)
      in if isNull img then (None, s)
         else
           (let node = (case oldNode of None \<Rightarrow> QSGSimpleTextureNode_new | Some n \<Rightarrow> n)
            in if m_imageChanged s \<or> texture node = None then
                 (Some (node\<lparr> texture := Some img,
                              rect := (0, 0, implicitWidth s, implicitHeight s),
                              markedDirty := True \<rparr>),
                  s\<lparr> m_imageChanged := False \<rparr>)
               else (Some node, s)))"

definition filterApplied :: "QImage \<Rightarrow> FilteredImage \<Rightarrow> FilteredImage" where
  "filterApplied img s =
     (let s1 = s\<lparr> m_filteredImage := img \<rparr>;
          s2 = s1\<lparr> m_imageChanged := True \<rparr>;
          s3 = s2\<lparr> emitted := emitted s2 @ [ImageChanged (m_filteredImage s2)] \<rparr>
      in setIsApplyingFilter False s3)"

text \<open>A file name of the form \<open><integer>.jpg\<close>: a decimal numeral, possibly signed, then \<open>.jpg\<close>.\<close>

definition is_digit :: "char \<Rightarrow> bool" where
  "is_digit c = (c \<in> set ''0123456789'')"

definition is_integer_text :: "string \<Rightarrow> bool" where
  "is_integer_text t =
     (if t \<noteq> [] \<and> hd t = CHR ''-'' then tl t \<noteq> [] \<and> list_all is_digit (tl t)
      else t \<noteq> [] \<and> list_all is_digit t)"

definition matches_integer_jpg :: "string \<Rightarrow> bool" where
  "matches_integer_jpg name =
     (4 \<le> length name \<and> drop (length name - 4) name = ''.jpg''
      \<and> is_integer_text (take (length name - 4) name))"

text \<open>
  The integer that a decimal numeral denotes; the value of a digit is its place among
  the ten digits.
\<close>

definition digit_value :: "char \<Rightarrow> nat" where
  "digit_value c = length (takeWhile (\<lambda>d. d \<noteq> c) ''0123456789'')"

definition digits_value :: "string \<Rightarrow> nat" where
  "digits_value ds = foldl (\<lambda>acc c. 10 * acc + digit_value c) 0 ds"

definition integer_of_text :: "string \<Rightarrow> int" where
  "integer_of_text t =
     (if t \<noteq> [] \<and> hd t = CHR ''-'' then - int (digits_value (tl t)) else int (digits_value t))"

section \<open>Sample data\<close>

definition sample_image :: QImage where
  "sample_image = [[1, 2, 3], [4, 5, 6]]"

definition sample_filtered :: QImage where
  "sample_filtered = [[9, 8], [7, 6]]"

text \<open>
  Three filter objects: the one at 1 has no parameters and declines every request, the
  one at 2 has a parameter, every other one has no parameters and accepts.
\<close>

definition sample_filters :: "filter_ptr \<Rightarrow> AbstractImageFilter" where
  "sample_filters p =
     (if p = 1 then \<lparr> parameterList = [], applyFilter_accepts = (\<lambda>_. False) \<rparr>
      else if p = 2 then \<lparr> parameterList = [''radius''], applyFilter_accepts = (\<lambda>_. True) \<rparr>
      else \<lparr> parameterList = [], applyFilter_accepts = (\<lambda>_. True) \<rparr>)"

text \<open>
  Every source decodes to the sample image; the metadata of \<open>a.jpg\<close> give the identity
  orientation, those of every other source ask for a clockwise quarter turn.
\<close>

definition sample_env :: env where
  "sample_env =
     \<lparr> imageReader_format = (\<lambda>_. ''jpeg''),
       imageReader_read = (\<lambda>_. sample_image),
       metadata_orientation = (\<lambda>src _. if src = ''a.jpg'' then TopLeft else RightTop),
       filter_object = sample_filters,
       picturesLocation = ''/home/nemo/Pictures'',
       cd_filters = False,
       cd_filters_after_mkdir = True,
       currentMSecsSinceEpoch = 1400000000123 \<rparr>"

text \<open>
  A new item that has loaded \<open>a.jpg\<close>, has been given the filter at 3, and has received
  the filtered image from it.
\<close>

definition sample_item :: FilteredImage where
  "sample_item =
     filterApplied sample_filtered
       (applyFilter sample_env (Some 3)
          (setSource sample_env ''a.jpg'' (FilteredImage_new False)))"

section \<open>Pixel grids\<close>

lemma mk_image_empty: "w = 0 \<or> h = 0 \<Longrightarrow> mk_image w h f = []"
  by (auto simp: mk_image_def QImage_null_def)

lemma width_mk_image: "0 < h \<Longrightarrow> width (mk_image w h f) = w"
  by (cases h)
     (auto simp: mk_image_def width_def QImage_null_def upt_conv_Cons simp del: upt_Suc)

lemma height_mk_image: "0 < w \<Longrightarrow> height (mk_image w h f) = h"
  by (simp add: mk_image_def height_def QImage_null_def)

lemma pixel_mk_image: "x < w \<Longrightarrow> y < h \<Longrightarrow> pixel (mk_image w h f) x y = f x y"
  by (auto simp: mk_image_def pixel_def)

lemma mk_image_cong:
  "(\<And>x y. x < w \<Longrightarrow> y < h \<Longrightarrow> f x y = g x y) \<Longrightarrow> mk_image w h f = mk_image w h g"
  by (simp add: mk_image_def)

text \<open>A proper image is the image of its own width, height and pixels.\<close>

lemma mk_image_pixel:
  assumes "rectangular img"
  shows "mk_image (width img) (height img) (pixel img) = img"
proof (cases "img = []")
  case True
  then show ?thesis
    by (simp add: mk_image_def width_def height_def QImage_null_def)
next
  case False
  with assms have w: "0 < width img"
    and len: "\<And>l. l \<in> set img \<Longrightarrow> length l = width img"
    by (auto simp: rectangular_def list_all_iff)
  from False have h: "0 < height img"
    by (simp add: height_def)
  have "map (\<lambda>y. map (\<lambda>x. img ! y ! x) [0..<width img]) [0..<length img] = img"
  proof (rule nth_equalityI)
    show "length (map (\<lambda>y. map (\<lambda>x. img ! y ! x) [0..<width img]) [0..<length img])
          = length img"
      by simp
  next
    fix i
    assume "i < length (map (\<lambda>y. map (\<lambda>x. img ! y ! x) [0..<width img]) [0..<length img])"
    then have i: "i < length img"
      by simp
    then have "length (img ! i) = width img"
      using len by simp
    then have "map (\<lambda>x. img ! i ! x) [0..<width img] = img ! i"
      by (metis map_nth)
    with i show "map (\<lambda>y. map (\<lambda>x. img ! y ! x) [0..<width img]) [0..<length img] ! i
                 = img ! i"
      by simp
  qed
  with w h show ?thesis
    by (simp add: mk_image_def pixel_def height_def)
qed

lemma mirrored_mk_image:
  "mirrored (mk_image w h f) hz vt =
     mk_image w h (\<lambda>x y. f (if hz then w - 1 - x else x) (if vt then h - 1 - y else y))"
proof (cases "w = 0 \<or> h = 0")
  case True
  then show ?thesis
    by (auto simp: mirrored_def mk_image_empty width_def height_def)
next
  case False
  then have "0 < w" "0 < h"
    by auto
  then show ?thesis
    unfolding mirrored_def
    by (auto simp: width_mk_image height_mk_image pixel_mk_image intro!: mk_image_cong)
qed

lemma transformed_cw:
  "transformed (mk_image w h f) 90 = mk_image h w (\<lambda>x y. f y (h - 1 - x))"
proof (cases "w = 0 \<or> h = 0")
  case True
  then show ?thesis
    by (auto simp: transformed_def mk_image_empty width_def height_def)
next
  case False
  then have "0 < w" "0 < h"
    by auto
  then show ?thesis
    unfolding transformed_def
    by (auto simp: width_mk_image height_mk_image pixel_mk_image intro!: mk_image_cong)
qed

lemma transformed_ccw:
  "transformed (mk_image w h f) (- 90) = mk_image h w (\<lambda>x y. f (w - 1 - y) x)"
proof (cases "w = 0 \<or> h = 0")
  case True
  then show ?thesis
    by (auto simp: transformed_def mk_image_empty width_def height_def)
next
  case False
  then have "0 < w" "0 < h"
    by auto
  then show ?thesis
    unfolding transformed_def
    by (auto simp: width_mk_image height_mk_image pixel_mk_image intro!: mk_image_cong)
qed

text \<open>Mirroring twice, and a quarter turn followed by the opposite one, change nothing.\<close>

lemma flip_twice:
  "mirrored (mirrored (mk_image w h f) hz vt) hz vt = mk_image w h f"
  by (simp add: mirrored_mk_image) (rule mk_image_cong, simp)

lemma cw_then_ccw:
  "transformed (transformed (mk_image w h f) 90) (- 90) = mk_image w h f"
  by (simp add: transformed_cw transformed_ccw) (rule mk_image_cong, simp)

lemma ccw_then_cw:
  "transformed (transformed (mk_image w h f) (- 90)) 90 = mk_image w h f"
  by (simp add: transformed_cw transformed_ccw) (rule mk_image_cong, simp)

lemma flip_twice_cw:
  "mirrored (mirrored (transformed (mk_image w h f) 90) hz vt) hz vt
     = transformed (mk_image w h f) 90"
  by (simp only: transformed_cw flip_twice)

lemma flip_twice_ccw:
  "mirrored (mirrored (transformed (mk_image w h f) (- 90)) hz vt) hz vt
     = transformed (mk_image w h f) (- 90)"
  by (simp only: transformed_ccw flip_twice)

text \<open>
  A clockwise quarter turn followed by a horizontal flip exchanges rows and columns,
  and the anticlockwise one followed by the flip does so along the other diagonal:
  each of them, done twice, changes nothing.
\<close>

lemma transpose_twice:
  "mirrored (transformed (mirrored (transformed (mk_image w h f) 90) True False) 90) True False
     = mk_image w h f"
  by (simp add: transformed_cw mirrored_mk_image) (rule mk_image_cong, simp)

lemma transverse_twice:
  "mirrored (transformed (mirrored (transformed (mk_image w h f) (- 90)) True False) (- 90))
     True False
     = mk_image w h f"
  by (simp add: transformed_ccw mirrored_mk_image) (rule mk_image_cong, simp)

section \<open>Properties of the orientation transform\<close>

lemma rotate_image_calls: "rotate_image src ori = run_calls (rotate_calls ori) src"
  by (cases ori) (simp_all add: run_calls_def Let_def)

lemma undo_by_calls:
  "run_calls (inverse_calls (rotate_calls ori)) (rotate_image (mk_image w h f) ori)
     = mk_image w h f"
  by (cases ori)
     (simp_all add: run_calls_def inverse_calls_def QTransform_rotate_def
        QTransform_identity_def flip_twice cw_then_ccw ccw_then_cw flip_twice_cw
        flip_twice_ccw)

lemma undo_by_orientation:
  "rotate_image (rotate_image (mk_image w h f) ori) (inverse_orientation ori) = mk_image w h f"
  by (cases ori)
     (simp_all add: QTransform_rotate_def QTransform_identity_def flip_twice cw_then_ccw
        ccw_then_cw transpose_twice transverse_twice)

text \<open>
  Claim C8. The orientation transform is a total function of the image and the
  orientation, without a failure value: for the identity orientation \<open>TopLeft\<close> it
  returns the source image as it is, and for an orientation value that is none of
  the enumerators it returns the source image as it is, too.
\<close>

theorem rotate_identity_and_fallback:
  "rotate_image src TopLeft = src \<and> rotate_image src (Unrecognized code) = src"
  by simp

text \<open>
  Claim C6, as the code has it. For every orientation the transform is the sequence of
  calls listed by \<open>rotate_calls\<close>, each of which is a horizontal or vertical flip or a
  rotation by 90 or -90 degrees. A rotation is composed with a flip in exactly two of
  the eight cases, \<open>LeftTop\<close> and \<open>RightBottom\<close>, not in one.
\<close>

theorem rotate_flips_and_quarter_turns:
  "rotate_image src ori = run_calls (rotate_calls ori) src
   \<and> list_all is_flip_or_quarter_turn (rotate_calls ori)
   \<and> composes_rotation_with_flip ori = (ori = LeftTop \<or> ori = RightBottom)
   \<and> filter composes_rotation_with_flip orientation_cases = [LeftTop, RightBottom]"
proof -
  have "list_all is_flip_or_quarter_turn (rotate_calls ori)"
    by (cases ori)
       (simp_all add: is_flip_or_quarter_turn_def QTransform_rotate_def
          QTransform_identity_def)
  moreover have "composes_rotation_with_flip ori = (ori = LeftTop \<or> ori = RightBottom)"
    by (cases ori)
       (simp_all add: composes_rotation_with_flip_def QTransform_rotate_def
          QTransform_identity_def)
  moreover have "filter composes_rotation_with_flip orientation_cases = [LeftTop, RightBottom]"
    by (simp add: composes_rotation_with_flip_def orientation_cases_def
          QTransform_rotate_def QTransform_identity_def)
  ultimately show ?thesis
    by (simp add: rotate_image_calls)
qed

text \<open>The theorem at the orientation \<open>RightBottom\<close> and the sample image.\<close>

theorem rotate_flips_and_quarter_turns_witness:
  "rotate_image sample_image RightBottom = run_calls (rotate_calls RightBottom) sample_image
   \<and> list_all is_flip_or_quarter_turn (rotate_calls RightBottom)
   \<and> composes_rotation_with_flip RightBottom"
  using rotate_flips_and_quarter_turns [of sample_image RightBottom] by blast

text \<open>
  Two different orientation cases compose a rotation with a flip, so it is not exactly
  one case that does.
\<close>

theorem two_cases_compose_rotation_with_flip:
  "composes_rotation_with_flip LeftTop \<and> composes_rotation_with_flip RightBottom
   \<and> LeftTop \<noteq> RightBottom"
  by (simp add: composes_rotation_with_flip_def QTransform_rotate_def QTransform_identity_def)

text \<open>
  Claim C7. For each orientation, the orientation transform followed by its geometric
  inverse gives back the original pixel grid: both when the inverse undoes the calls of
  the transform one by one in reverse order, and when it is the orientation transform
  of the inverse orientation. In particular two horizontal flips in a row give back
  the original pixel grid. The pixel grid is that of an image: its scan lines have one
  length.
\<close>

theorem rotate_then_inverse:
  assumes "rectangular img"
  shows "run_calls (inverse_calls (rotate_calls ori)) (rotate_image img ori) = img
     \<and> rotate_image (rotate_image img ori) (inverse_orientation ori) = img
     \<and> mirrored (mirrored img True False) True False = img"
proof -
  have "run_calls (inverse_calls (rotate_calls ori))
          (rotate_image (mk_image (width img) (height img) (pixel img)) ori)
        = mk_image (width img) (height img) (pixel img)"
    by (rule undo_by_calls)
  moreover have "rotate_image (rotate_image (mk_image (width img) (height img) (pixel img)) ori)
          (inverse_orientation ori)
        = mk_image (width img) (height img) (pixel img)"
    by (rule undo_by_orientation)
  moreover have "mirrored (mirrored (mk_image (width img) (height img) (pixel img)) True False)
          True False
        = mk_image (width img) (height img) (pixel img)"
    by (rule flip_twice)
  ultimately show ?thesis
    by (simp add: mk_image_pixel [OF assms])
qed

text \<open>The theorem at the sample image of three columns and two scan lines, for \<open>LeftTop\<close>.\<close>

theorem rotate_then_inverse_witness:
  "rectangular sample_image
   \<and> run_calls (inverse_calls (rotate_calls LeftTop)) (rotate_image sample_image LeftTop)
       = sample_image
   \<and> rotate_image (rotate_image sample_image LeftTop) (inverse_orientation LeftTop)
       = sample_image
   \<and> mirrored (mirrored sample_image True False) True False = sample_image"
proof -
  have r: "rectangular sample_image"
    by (simp add: rectangular_def sample_image_def width_def)
  from rotate_then_inverse [OF r, of LeftTop] r show ?thesis
    by blast
qed

section \<open>Properties of the item\<close>

lemma isNull_QImage_null: "isNull QImage_null"
  by (simp add: isNull_def QImage_null_def width_def)

lemma setIsApplyingFilter_fields:
  "m_source (setIsApplyingFilter v s) = m_source s"
  "m_image (setIsApplyingFilter v s) = m_image s"
  "m_filteredImage (setIsApplyingFilter v s) = m_filteredImage s"
  "m_filter (setIsApplyingFilter v s) = m_filter s"
  "m_isApplyingFilter (setIsApplyingFilter v s) = v"
  "m_imageChanged (setIsApplyingFilter v s) = m_imageChanged s"
  "connections (setIsApplyingFilter v s) = connections s"
  "filter_calls (setIsApplyingFilter v s) = filter_calls s"
  "save_calls (setIsApplyingFilter v s) = save_calls s"
  by (auto simp: setIsApplyingFilter_def)

lemma resetFilter_fields:
  "m_image (resetFilter s) = m_image s"
  "m_filteredImage (resetFilter s) = m_image s"
  "m_filter (resetFilter s) = m_filter s"
  "m_isApplyingFilter (resetFilter s) = False"
  "m_imageChanged (resetFilter s) = True"
  "connections (resetFilter s) = connections s"
  "filter_calls (resetFilter s) =
     (case m_filter s of Some f \<Rightarrow> filter_calls s @ [ResetParameters f]
                       | None \<Rightarrow> filter_calls s)"
  by (simp_all add: resetFilter_def Let_def setIsApplyingFilter_fields split: option.split)

lemma image_accessor_resetFilter: "image_accessor (resetFilter s) = m_image s"
  by (simp add: image_accessor_def resetFilter_fields)

lemma applyCurrentFilter_null: "isNull (m_filteredImage (applyCurrentFilter s))"
  by (simp add: applyCurrentFilter_def isNull_QImage_null)

text \<open>The state of the sample item, field by field.\<close>

lemma sample_item_fields:
  "m_source sample_item = ''a.jpg''"
  "m_image sample_item = sample_image"
  "m_filteredImage sample_item = sample_filtered"
  "m_filter sample_item = Some 3"
  "m_isApplyingFilter sample_item = False"
  "m_imageChanged sample_item = True"
  "connections sample_item = [3]"
  "emitted sample_item =
     [SourceChanged ''a.jpg'', ImageChanged sample_image, IsApplyingFilterChanged True,
      ImageChanged sample_filtered, IsApplyingFilterChanged False]"
  "filter_calls sample_item = [ApplyFilterRequest 3 sample_image]"
  "save_calls sample_item = []"
  by (simp_all add: sample_item_def filterApplied_def applyFilter_def setSource_def
        setIsApplyingFilter_def FilteredImage_new_def sample_env_def sample_filters_def
        Let_def)

lemma sample_images_not_null: "\<not> isNull sample_image" "\<not> isNull sample_filtered"
  by (simp_all add: isNull_def sample_image_def sample_filtered_def width_def height_def)

subsection \<open>Decimal numerals\<close>

lemma number_digits_nonempty: "number_digits n \<noteq> []"
  by (subst number_digits.simps) simp

lemma digit_char_is_digit: "d < 10 \<Longrightarrow> is_digit (''0123456789'' ! d)"
  unfolding is_digit_def by (rule nth_mem) simp

lemma number_digits_all_digits: "list_all is_digit (number_digits n)"
proof (induction n rule: number_digits.induct)
  case (1 n)
  show ?case
  proof (cases "n < 10")
    case True
    then show ?thesis
      by (subst number_digits.simps) (simp add: digit_char_is_digit)
  next
    case False
    with "1" have "list_all is_digit (number_digits (n div 10))"
      by simp
    moreover have "is_digit (''0123456789'' ! (n mod 10))"
      by (rule digit_char_is_digit) simp
    ultimately show ?thesis
      using False by (subst number_digits.simps) simp
  qed
qed

lemma is_digit_not_minus: "is_digit c \<Longrightarrow> c \<noteq> CHR ''-''"
  by (auto simp: is_digit_def)

lemma hd_number_digits: "hd (number_digits n) \<noteq> CHR ''-''"
proof -
  have "is_digit (hd (number_digits n))"
    using number_digits_all_digits [of n] number_digits_nonempty [of n]
    by (cases "number_digits n") simp_all
  then show ?thesis
    by (rule is_digit_not_minus)
qed

lemma is_integer_text_QString_number: "is_integer_text (QString_number i)"
  by (simp add: is_integer_text_def QString_number_def number_digits_nonempty
        number_digits_all_digits hd_number_digits)

lemma matches_integer_jpg_QString_number: "matches_integer_jpg (QString_number i @ ''.jpg'')"
  by (simp add: matches_integer_jpg_def is_integer_text_QString_number)

lemma digit_value_table:
  "list_all (\<lambda>d. digit_value (''0123456789'' ! d) = d) [0, 1, 2, 3, 4, 5, 6, 7, 8, 9]"
  by (simp add: digit_value_def)

lemma digit_value_digit_char:
  assumes "d < 10"
  shows "digit_value (''0123456789'' ! d) = d"
proof -
  have "[0..<10] = [0, 1, 2, 3, 4, 5, 6, 7, 8, 9 :: nat]"
    by (simp add: upt_rec)
  with assms have "d \<in> set [0, 1, 2, 3, 4, 5, 6, 7, 8, 9]"
    by (metis atLeastLessThan_iff le0 set_upt)
  with digit_value_table show ?thesis
    unfolding list_all_iff by blast
qed

lemma digits_value_snoc: "digits_value (ds @ [c]) = 10 * digits_value ds + digit_value c"
  by (simp add: digits_value_def)

lemma digits_value_number_digits: "digits_value (number_digits n) = n"
proof (induction n rule: number_digits.induct)
  case (1 n)
  show ?case
  proof (cases "n < 10")
    case True
    then show ?thesis
      by (subst number_digits.simps) (simp add: digits_value_def digit_value_digit_char)
  next
    case False
    with "1" have "digits_value (number_digits (n div 10)) = n div 10"
      by simp
    then show ?thesis
      using False
      by (subst number_digits.simps) (simp add: digits_value_snoc digit_value_digit_char)
  qed
qed

lemma integer_of_text_QString_number: "integer_of_text (QString_number i) = i"
  by (simp add: integer_of_text_def QString_number_def number_digits_nonempty
        hd_number_digits digits_value_number_digits)

subsection \<open>Loading a source\<close>

text \<open>
  What \<open>setSource\<close> does with a source string different from the current one: the base
  image becomes the orientation-corrected decoding of the new source, the implicit size
  becomes that of the new base image, the item is marked dirty, and a source-changed
  notification and then an image-changed notification with the new base image are
  emitted. It assigns nothing else; in particular it does not assign the filtered image.
\<close>

lemma setSource_fields:
  assumes "m_source s \<noteq> src"
  shows "m_source (setSource e src s) = src
     \<and> m_image (setSource e src s)
         = rotate_image (imageReader_read e src)
             (metadata_orientation e src (imageReader_format e src))
     \<and> m_filteredImage (setSource e src s) = m_filteredImage s
     \<and> m_filter (setSource e src s) = m_filter s
     \<and> m_isApplyingFilter (setSource e src s) = m_isApplyingFilter s
     \<and> m_imageChanged (setSource e src s)
     \<and> implicitWidth (setSource e src s) = width (m_image (setSource e src s))
     \<and> implicitHeight (setSource e src s) = height (m_image (setSource e src s))
     \<and> save_calls (setSource e src s) = save_calls s
     \<and> emitted (setSource e src s)
         = emitted s @ [SourceChanged src, ImageChanged (m_image (setSource e src s))]"
  using assms by (simp add: setSource_def Let_def)

text \<open>
  The sample item loads \<open>b.jpg\<close>, whose metadata ask for a clockwise quarter turn of the
  sample image.
\<close>

lemma sample_reload_fields:
  "m_image (setSource sample_env ''b.jpg'' sample_item) = [[4, 1], [5, 2], [6, 3]]"
  "m_filteredImage (setSource sample_env ''b.jpg'' sample_item) = sample_filtered"
  "m_imageChanged (setSource sample_env ''b.jpg'' sample_item) = True"
  "implicitWidth (setSource sample_env ''b.jpg'' sample_item) = 2"
  "implicitHeight (setSource sample_env ''b.jpg'' sample_item) = 3"
  "save_calls (setSource sample_env ''b.jpg'' sample_item) = []"
  "emitted (setSource sample_env ''b.jpg'' sample_item)
     = emitted sample_item @ [SourceChanged ''b.jpg'', ImageChanged [[4, 1], [5, 2], [6, 3]]]"
proof -
  have src: "m_source sample_item \<noteq> ''b.jpg''"
    by (simp add: sample_item_fields)
  have img: "rotate_image sample_image RightTop = [[4, 1], [5, 2], [6, 3]]"
    by code_simp
  have m: "m_image (setSource sample_env ''b.jpg'' sample_item) = [[4, 1], [5, 2], [6, 3]]"
    using setSource_fields [OF src, of sample_env] img
    by (simp add: sample_env_def)
  then show "m_image (setSource sample_env ''b.jpg'' sample_item) = [[4, 1], [5, 2], [6, 3]]" .
  show "m_filteredImage (setSource sample_env ''b.jpg'' sample_item) = sample_filtered"
    using setSource_fields [OF src, of sample_env] by (simp add: sample_item_fields)
  show "m_imageChanged (setSource sample_env ''b.jpg'' sample_item) = True"
    using setSource_fields [OF src, of sample_env] by simp
  show "implicitWidth (setSource sample_env ''b.jpg'' sample_item) = 2"
    using setSource_fields [OF src, of sample_env] m by (simp add: width_def)
  show "implicitHeight (setSource sample_env ''b.jpg'' sample_item) = 3"
    using setSource_fields [OF src, of sample_env] m by (simp add: height_def)
  show "save_calls (setSource sample_env ''b.jpg'' sample_item) = []"
    using setSource_fields [OF src, of sample_env] by (simp add: sample_item_fields)
  show "emitted (setSource sample_env ''b.jpg'' sample_item)
     = emitted sample_item @ [SourceChanged ''b.jpg'', ImageChanged [[4, 1], [5, 2], [6, 3]]]"
    using setSource_fields [OF src, of sample_env] m by simp
qed

text \<open>
  Claim C1. The claim is that \<open>setSource\<close> with a new source replaces the base image by
  the orientation-corrected decoding of the source, clears the filtered image, marks the
  display dirty and emits a source-changed and an image-changed notification. The code
  does all of that but the clearing. The sample item shows a filtered image when it loads
  \<open>b.jpg\<close>: afterwards the base image is the decoded and turned new image, the item is
  dirty, its implicit size is that of the new image, and the notifications emitted end
  with the image-changed notification for the new image; but the filtered image of the
  old source is still present. So the accessor still returns the old filtered image, the
  render-node sync makes its texture from the old filtered image, in the rectangle of
  the new one, and a save that follows commits and writes the old filtered image, and
  the new base image is lost.
\<close>

theorem setSource_leaves_stale_filtered_image:
  "m_source sample_item \<noteq> ''b.jpg''
   \<and> m_image (setSource sample_env ''b.jpg'' sample_item) = [[4, 1], [5, 2], [6, 3]]
   \<and> m_imageChanged (setSource sample_env ''b.jpg'' sample_item)
   \<and> emitted (setSource sample_env ''b.jpg'' sample_item)
       = emitted sample_item @ [SourceChanged ''b.jpg'', ImageChanged [[4, 1], [5, 2], [6, 3]]]
   \<and> m_filteredImage (setSource sample_env ''b.jpg'' sample_item) = sample_filtered
   \<and> \<not> isNull (m_filteredImage (setSource sample_env ''b.jpg'' sample_item))
   \<and> image_accessor (setSource sample_env ''b.jpg'' sample_item) = sample_filtered
   \<and> map_option texture (fst (updatePaintNode None (setSource sample_env ''b.jpg'' sample_item)))
       = Some (Some sample_filtered)
   \<and> map_option rect (fst (updatePaintNode None (setSource sample_env ''b.jpg'' sample_item)))
       = Some (0, 0, 2, 3)
   \<and> m_image (saveImage sample_env (setSource sample_env ''b.jpg'' sample_item))
       = sample_filtered
   \<and> map snd (save_calls (saveImage sample_env (setSource sample_env ''b.jpg'' sample_item)))
       = [sample_filtered]"
proof -
  have src: "m_source sample_item \<noteq> ''b.jpg''"
    by (simp add: sample_item_fields)
  have acc: "image_accessor (setSource sample_env ''b.jpg'' sample_item) = sample_filtered"
    by (simp add: image_accessor_def sample_reload_fields sample_images_not_null)
  have node: "fst (updatePaintNode None (setSource sample_env ''b.jpg'' sample_item))
      = Some \<lparr> texture = Some sample_filtered, rect = (0, 0, 2, 3), markedDirty = True \<rparr>"
    by (simp add: updatePaintNode_def Let_def QSGSimpleTextureNode_new_def
          sample_reload_fields sample_images_not_null)
  have commit: "m_image (applyCurrentFilter (setSource sample_env ''b.jpg'' sample_item))
      = sample_filtered"
    by (simp add: applyCurrentFilter_def sample_reload_fields sample_images_not_null)
  have "save_calls (applyCurrentFilter (setSource sample_env ''b.jpg'' sample_item)) = []"
    by (simp add: applyCurrentFilter_def sample_reload_fields)
  with commit
  have save: "m_image (saveImage sample_env (setSource sample_env ''b.jpg'' sample_item))
      = sample_filtered"
    and saved: "map snd (save_calls (saveImage sample_env
        (setSource sample_env ''b.jpg'' sample_item))) = [sample_filtered]"
    by (simp_all add: saveImage_def Let_def)
  from src acc node save saved show ?thesis
    by (simp add: sample_reload_fields sample_images_not_null)
qed

subsection \<open>Attaching a filter\<close>

text \<open>
  Claim C2, as the code has it. When \<open>applyFilter\<close> is called with a filter \<open>f\<close> that has
  no parameters and \<open>f\<close> declines the request, the applying flag keeps its value, and so
  do the source, the base image, the filtered image and the dirty flag, and no
  notification is emitted. The item does change in one respect: \<open>f\<close> has become its
  filter, connected in place of the previous one, and has received the request.
\<close>

theorem applyFilter_declined:
  assumes "parameterList (filter_object e f) = []"
    and "\<not> applyFilter_accepts (filter_object e f) (m_image s)"
  shows "applyFilter e (Some f) s
         = s\<lparr> m_filter := Some f,
               connections :=
                 (case m_filter s of Some old \<Rightarrow> removeAll old (connections s)
                                   | None \<Rightarrow> connections s) @ [f],
               filter_calls := filter_calls s @ [ApplyFilterRequest f (m_image s)] \<rparr>
     \<and> m_isApplyingFilter (applyFilter e (Some f) s) = m_isApplyingFilter s
     \<and> m_source (applyFilter e (Some f) s) = m_source s
     \<and> m_image (applyFilter e (Some f) s) = m_image s
     \<and> m_filteredImage (applyFilter e (Some f) s) = m_filteredImage s
     \<and> m_imageChanged (applyFilter e (Some f) s) = m_imageChanged s
     \<and> emitted (applyFilter e (Some f) s) = emitted s"
  using assms by (simp add: applyFilter_def Let_def split: option.split)

text \<open>The sample item is given the filter at 1, which has no parameters and declines.\<close>

theorem applyFilter_declined_witness:
  "parameterList (filter_object sample_env 1) = []
   \<and> \<not> applyFilter_accepts (filter_object sample_env 1) (m_image sample_item)
   \<and> m_isApplyingFilter (applyFilter sample_env (Some 1) sample_item) = False
   \<and> m_image (applyFilter sample_env (Some 1) sample_item) = sample_image
   \<and> m_filteredImage (applyFilter sample_env (Some 1) sample_item) = sample_filtered
   \<and> emitted (applyFilter sample_env (Some 1) sample_item) = emitted sample_item"
proof -
  have p: "parameterList (filter_object sample_env 1) = []"
    by (simp add: sample_env_def sample_filters_def)
  have d: "\<not> applyFilter_accepts (filter_object sample_env 1) (m_image sample_item)"
    by (simp add: sample_env_def sample_filters_def)
  from applyFilter_declined [OF p d]
  have "m_isApplyingFilter (applyFilter sample_env (Some 1) sample_item)
          = m_isApplyingFilter sample_item"
    and "m_image (applyFilter sample_env (Some 1) sample_item) = m_image sample_item"
    and "m_filteredImage (applyFilter sample_env (Some 1) sample_item)
          = m_filteredImage sample_item"
    and "emitted (applyFilter sample_env (Some 1) sample_item) = emitted sample_item"
    by blast+
  then show ?thesis
    using p d by (simp add: sample_item_fields)
qed

text \<open>
  The filter of the sample item is the one at 3; after the declined request it is the
  one at 1, so the item is not as it was before the call.
\<close>

theorem applyFilter_declined_switches_filter:
  "parameterList (filter_object sample_env 1) = []
   \<and> \<not> applyFilter_accepts (filter_object sample_env 1) (m_image sample_item)
   \<and> m_filter sample_item = Some 3
   \<and> m_filter (applyFilter sample_env (Some 1) sample_item) = Some 1
   \<and> applyFilter sample_env (Some 1) sample_item \<noteq> sample_item"
proof -
  have m: "m_filter (applyFilter sample_env (Some 1) sample_item) = Some 1"
    by (simp add: applyFilter_def Let_def sample_env_def sample_filters_def
          sample_item_fields)
  have n: "m_filter sample_item = Some 3"
    by (simp add: sample_item_fields)
  from m n have "applyFilter sample_env (Some 1) sample_item \<noteq> sample_item"
    by auto
  with m n show ?thesis
    by (simp add: sample_env_def sample_filters_def)
qed

text \<open>
  Claim C3. When \<open>applyFilter\<close> is called with a filter \<open>f\<close> whose parameter list is not
  empty, the item attaches \<open>f\<close> and then does what \<open>resetFilter\<close> does: the only call
  that \<open>f\<close> receives is the one to reset its parameters, so no request to apply is
  sent; and right after the call the image displayed is the base image and the
  applying flag is false.
\<close>

theorem applyFilter_with_parameters:
  assumes "parameterList (filter_object e f) \<noteq> []"
  shows "applyFilter e (Some f) s
         = resetFilter
             (s\<lparr> m_filter := Some f,
                  connections :=
                    (case m_filter s of Some old \<Rightarrow> removeAll old (connections s)
                                      | None \<Rightarrow> connections s) @ [f] \<rparr>)
     \<and> filter_calls (applyFilter e (Some f) s) = filter_calls s @ [ResetParameters f]
     \<and> m_image (applyFilter e (Some f) s) = m_image s
     \<and> image_accessor (applyFilter e (Some f) s) = m_image s
     \<and> m_isApplyingFilter (applyFilter e (Some f) s) = False"
proof -
  have "applyFilter e (Some f) s
         = resetFilter
             (s\<lparr> m_filter := Some f,
                  connections :=
                    (case m_filter s of Some old \<Rightarrow> removeAll old (connections s)
                                      | None \<Rightarrow> connections s) @ [f] \<rparr>)"
    using assms by (simp add: applyFilter_def Let_def split: option.split)
  then show ?thesis
    by (simp add: resetFilter_fields image_accessor_resetFilter)
qed

text \<open>The sample item is given the filter at 2, which has a parameter.\<close>

theorem applyFilter_with_parameters_witness:
  "parameterList (filter_object sample_env 2) \<noteq> []
   \<and> filter_calls (applyFilter sample_env (Some 2) sample_item)
       = [ApplyFilterRequest 3 sample_image, ResetParameters 2]
   \<and> image_accessor (applyFilter sample_env (Some 2) sample_item) = sample_image
   \<and> m_isApplyingFilter (applyFilter sample_env (Some 2) sample_item) = False"
proof -
  have p: "parameterList (filter_object sample_env 2) \<noteq> []"
    by (simp add: sample_env_def sample_filters_def)
  from applyFilter_with_parameters [OF p, of sample_item]
  have "filter_calls (applyFilter sample_env (Some 2) sample_item)
          = filter_calls sample_item @ [ResetParameters 2]"
    and "image_accessor (applyFilter sample_env (Some 2) sample_item) = m_image sample_item"
    and "m_isApplyingFilter (applyFilter sample_env (Some 2) sample_item) = False"
    by blast+
  then show ?thesis
    using p by (simp add: sample_item_fields)
qed

subsection \<open>Committing and saving\<close>

text \<open>
  Claim C5. When the filtered image is present, \<open>applyCurrentFilter\<close> copies it into the
  base image and clears it; when it is absent, \<open>applyCurrentFilter\<close> changes nothing.
  In both cases no notification is emitted, and calling \<open>applyCurrentFilter\<close> twice in
  a row is the same as calling it once.
\<close>

theorem applyCurrentFilter_commit:
  "(\<not> isNull (m_filteredImage s) \<longrightarrow>
      applyCurrentFilter s = s\<lparr> m_image := m_filteredImage s, m_filteredImage := QImage_null \<rparr>)
   \<and> (isNull (m_filteredImage s) \<longrightarrow> applyCurrentFilter s = s)
   \<and> emitted (applyCurrentFilter s) = emitted s
   \<and> applyCurrentFilter (applyCurrentFilter s) = applyCurrentFilter s"
  by (simp add: applyCurrentFilter_def isNull_QImage_null)

text \<open>
  The theorem at the sample item, whose filtered image is present, and at a newly
  constructed item, whose filtered image is absent.
\<close>

theorem applyCurrentFilter_commit_witness:
  "\<not> isNull (m_filteredImage sample_item)
   \<and> applyCurrentFilter sample_item
       = sample_item\<lparr> m_image := m_filteredImage sample_item, m_filteredImage := QImage_null \<rparr>
   \<and> isNull (m_filteredImage (FilteredImage_new False))
   \<and> applyCurrentFilter (FilteredImage_new False) = FilteredImage_new False
   \<and> applyCurrentFilter (applyCurrentFilter sample_item) = applyCurrentFilter sample_item"
proof -
  have a: "\<not> isNull (m_filteredImage sample_item)"
    by (simp add: sample_item_fields sample_images_not_null)
  have b: "isNull (m_filteredImage (FilteredImage_new False))"
    by (simp add: FilteredImage_new_def isNull_QImage_null)
  show ?thesis
    using applyCurrentFilter_commit [of sample_item]
      applyCurrentFilter_commit [of "FilteredImage_new False"] a b
    by blast
qed

text \<open>
  Claim C4. Every call of \<open>saveImage\<close> commits first: base image and filtered image
  are those that \<open>applyCurrentFilter\<close> leaves, so the filtered image is absent after the
  call, and the image handed to the encoder is the committed base image. The call emits
  exactly one notification, the save-completed one, and its file name is the decimal
  numeral of the clock's milliseconds since the epoch followed by \<open>.jpg\<close>, which has the
  form \<open><integer>.jpg\<close>.
\<close>

theorem saveImage_commits_and_notifies:
  "m_image (saveImage e s) = m_image (applyCurrentFilter s)
   \<and> m_filteredImage (saveImage e s) = m_filteredImage (applyCurrentFilter s)
   \<and> isNull (m_filteredImage (saveImage e s))
   \<and> map snd (save_calls (saveImage e s))
       = map snd (save_calls s) @ [m_image (applyCurrentFilter s)]
   \<and> emitted (saveImage e s)
       = emitted s @ [ImageSaved (QString_number (currentMSecsSinceEpoch e) @ ''.jpg'')]
   \<and> matches_integer_jpg (QString_number (currentMSecsSinceEpoch e) @ ''.jpg'')
   \<and> integer_of_text (QString_number (currentMSecsSinceEpoch e)) = currentMSecsSinceEpoch e"
proof -
  have "emitted (applyCurrentFilter s) = emitted s"
    and "save_calls (applyCurrentFilter s) = save_calls s"
    by (simp_all add: applyCurrentFilter_def)
  then show ?thesis
    by (simp add: saveImage_def Let_def matches_integer_jpg_QString_number
          integer_of_text_QString_number applyCurrentFilter_null)
qed

text \<open>The sample item is saved at 1400000000123 milliseconds since the epoch.\<close>

theorem saveImage_commits_and_notifies_witness:
  "m_image (saveImage sample_env sample_item) = sample_filtered
   \<and> isNull (m_filteredImage (saveImage sample_env sample_item))
   \<and> emitted (saveImage sample_env sample_item)
       = emitted sample_item @ [ImageSaved ''1400000000123.jpg'']
   \<and> matches_integer_jpg ''1400000000123.jpg''"
proof -
  have n: "QString_number 1400000000123 = ''1400000000123''"
    by (simp add: QString_number_def number_digits.simps)
  have c: "m_image (applyCurrentFilter sample_item) = sample_filtered"
    by (simp add: applyCurrentFilter_def sample_item_fields sample_images_not_null)
  have t: "currentMSecsSinceEpoch sample_env = 1400000000123"
    by (simp add: sample_env_def)
  from saveImage_commits_and_notifies [of sample_env sample_item]
  have "m_image (saveImage sample_env sample_item) = m_image (applyCurrentFilter sample_item)"
    and "isNull (m_filteredImage (saveImage sample_env sample_item))"
    and "emitted (saveImage sample_env sample_item)
          = emitted sample_item
            @ [ImageSaved (QString_number (currentMSecsSinceEpoch sample_env) @ ''.jpg'')]"
    and "matches_integer_jpg (QString_number (currentMSecsSinceEpoch sample_env) @ ''.jpg'')"
    by blast+
  then show ?thesis
    by (simp add: t n c)
qed

text \<open>
  Claim C10. After \<open>resetFilter\<close> on an item whose base image is not null, the filtered
  image is present: it equals the base image and is not null. So a call of
  \<open>applyCurrentFilter\<close> right after it takes the branch for a present filtered image: it
  copies the filtered image into the base image, which thereby keeps its pixels, and
  then clears the filtered image, which changes the item.
\<close>

theorem resetFilter_then_applyCurrentFilter:
  assumes "\<not> isNull (m_image s)"
  shows "m_filteredImage (resetFilter s) = m_image s
     \<and> \<not> isNull (m_filteredImage (resetFilter s))
     \<and> applyCurrentFilter (resetFilter s)
         = (resetFilter s)\<lparr> m_image := m_filteredImage (resetFilter s),
                             m_filteredImage := QImage_null \<rparr>
     \<and> applyCurrentFilter (resetFilter s) \<noteq> resetFilter s
     \<and> m_image (applyCurrentFilter (resetFilter s)) = m_image s
     \<and> m_filteredImage (applyCurrentFilter (resetFilter s)) = QImage_null"
proof -
  have f: "m_filteredImage (resetFilter s) = m_image s"
    by (simp add: resetFilter_fields)
  with assms have n: "\<not> isNull (m_filteredImage (resetFilter s))"
    by simp
  then have c: "applyCurrentFilter (resetFilter s)
         = (resetFilter s)\<lparr> m_image := m_filteredImage (resetFilter s),
                             m_filteredImage := QImage_null \<rparr>"
    by (simp add: applyCurrentFilter_def)
  have d: "applyCurrentFilter (resetFilter s) \<noteq> resetFilter s"
  proof
    assume "applyCurrentFilter (resetFilter s) = resetFilter s"
    then have "m_filteredImage (applyCurrentFilter (resetFilter s))
               = m_filteredImage (resetFilter s)"
      by simp
    with c f have "m_image s = QImage_null"
      by simp
    with assms show False
      by (simp add: isNull_QImage_null)
  qed
  from c have "m_image (applyCurrentFilter (resetFilter s)) = m_image s"
    and "m_filteredImage (applyCurrentFilter (resetFilter s)) = QImage_null"
    by (simp_all add: f)
  with f n c d show ?thesis
    by blast
qed

text \<open>The theorem at the sample item, whose base image is the sample image.\<close>

theorem resetFilter_then_applyCurrentFilter_witness:
  "\<not> isNull (m_image sample_item)
   \<and> m_filteredImage (resetFilter sample_item) = sample_image
   \<and> applyCurrentFilter (resetFilter sample_item) \<noteq> resetFilter sample_item
   \<and> m_image (applyCurrentFilter (resetFilter sample_item)) = sample_image
   \<and> m_filteredImage (applyCurrentFilter (resetFilter sample_item)) = QImage_null"
proof -
  have i: "m_image sample_item = sample_image"
    by (simp add: sample_item_fields)
  have a: "\<not> isNull (m_image sample_item)"
    by (simp add: i sample_images_not_null)
  from resetFilter_then_applyCurrentFilter [OF a]
  have "m_filteredImage (resetFilter sample_item) = m_image sample_item"
    and "applyCurrentFilter (resetFilter sample_item) \<noteq> resetFilter sample_item"
    and "m_image (applyCurrentFilter (resetFilter sample_item)) = m_image sample_item"
    and "m_filteredImage (applyCurrentFilter (resetFilter sample_item)) = QImage_null"
    by blast+
  with a i show ?thesis
    by simp
qed

subsection \<open>What is displayed\<close>

text \<open>
  Claim C9. In every state the filtered image, when it is not null, has priority over
  the base image: the accessor returns the filtered image when it is not null and the
  base image otherwise, and the render-node sync works on the same choice. It returns no
  node exactly when the image so chosen is null, and when it uploads a texture (the
  item is dirty, or there is no previous node) the texture is made from the image so
  chosen.
\<close>

theorem filtered_image_display_priority:
  "image_accessor s = (if \<not> isNull (m_filteredImage s) then m_filteredImage s else m_image s)
   \<and> (fst (updatePaintNode oldNode s) = None) = isNull (image_accessor s)
   \<and> (\<not> isNull (image_accessor s) \<and> (m_imageChanged s \<or> oldNode = None) \<longrightarrow>
        map_option texture (fst (updatePaintNode oldNode s)) = Some (Some (image_accessor s)))"
  by (auto simp: image_accessor_def updatePaintNode_def Let_def QSGSimpleTextureNode_new_def
        split: option.split)

text \<open>
  The sample item, drawn for the first time: the accessor returns its filtered image
  and the texture of the new node is made from it.
\<close>

theorem filtered_image_display_priority_witness:
  "\<not> isNull (image_accessor sample_item)
   \<and> image_accessor sample_item = sample_filtered
   \<and> map_option texture (fst (updatePaintNode None sample_item)) = Some (Some sample_filtered)"
proof -
  have f: "m_filteredImage sample_item = sample_filtered"
    by (simp add: sample_item_fields)
  have a: "\<not> isNull (m_filteredImage sample_item)"
    by (simp add: f sample_images_not_null)
  have i: "image_accessor sample_item = sample_filtered"
    using filtered_image_display_priority [of sample_item None] a f by simp
  show ?thesis
    using filtered_image_display_priority [of sample_item None] a f i by simp
qed

end
